theory Spec2Isabelle
  imports Complex_Main
begin

section \<open>The values of the runtime\<close>

text \<open>
  \<^verbatim>\<open>src/type/scalars.ts\<close> is TypeScript: its functions receive values of type
  \<^verbatim>\<open>unknown\<close> and hand them to the generic conversions \<^verbatim>\<open>Number\<close>, \<^verbatim>\<open>String\<close> and
  \<^verbatim>\<open>Boolean\<close> of the runtime. This section fixes the universe of values and the next
  ones embed the conversions, following ECMAScript.

  A number is NaN, an infinity, or a finite value. Finite values are rationals: every
  finite double is one, and the operations the source applies to numbers (comparison
  with the two bounds, \<^verbatim>\<open>Math.floor\<close>, \<^verbatim>\<open>!==\<close>) are exact on doubles, so a statement
  proved for every rational holds for every double. The conversions between texts and
  numbers round to the nearest double and print the shortest digits that read back as
  the same double, as the runtime does. A rational that is no double stands for no
  value of the runtime. Negative zero is identified with zero (\<^verbatim>\<open>-0 === 0\<close> in the
  runtime, and both print as \<^verbatim>\<open>0\<close>). A text is a list of characters with codes below
  256.
\<close>

datatype js_number = NaN | PosInfinity | NegInfinity | Finite rat

text \<open>\<^verbatim>\<open>a < b\<close> on numbers: false as soon as one side is NaN.\<close>

fun num_less :: "js_number \<Rightarrow> js_number \<Rightarrow> bool" where
  "num_less NaN b = False"
| "num_less a NaN = False"
| "num_less PosInfinity b = False"
| "num_less NegInfinity NegInfinity = False"
| "num_less NegInfinity b = True"
| "num_less (Finite x) PosInfinity = True"
| "num_less (Finite x) NegInfinity = False"
| "num_less (Finite x) (Finite y) = (x < y)"

text \<open>\<^verbatim>\<open>a > b\<close> is \<^verbatim>\<open>b < a\<close>.\<close>

definition num_greater :: "js_number \<Rightarrow> js_number \<Rightarrow> bool" where
  "num_greater a b = num_less b a"

text \<open>\<^verbatim>\<open>a === b\<close> on numbers: NaN is different from everything, itself included.\<close>

definition num_strict_eq :: "js_number \<Rightarrow> js_number \<Rightarrow> bool" where
  "num_strict_eq a b = (a \<noteq> NaN \<and> b \<noteq> NaN \<and> a = b)"

text \<open>\<^verbatim>\<open>a <= b\<close> and \<^verbatim>\<open>a >= b\<close>: false on NaN, otherwise less or equal.\<close>

definition num_le :: "js_number \<Rightarrow> js_number \<Rightarrow> bool" where
  "num_le a b = (num_less a b \<or> num_strict_eq a b)"

definition num_ge :: "js_number \<Rightarrow> js_number \<Rightarrow> bool" where
  "num_ge a b = num_le b a"

fun Math_floor :: "js_number \<Rightarrow> js_number" where
  "Math_floor (Finite x) = Finite (of_int \<lfloor>x\<rfloor>)"
| "Math_floor n = n"

fun num_negate :: "js_number \<Rightarrow> js_number" where
  "num_negate NaN = NaN"
| "num_negate PosInfinity = NegInfinity"
| "num_negate NegInfinity = PosInfinity"
| "num_negate (Finite x) = Finite (- x)"

text \<open>
  The values: the primitives, arrays, and objects. An object is described by what the
  source and the conversions can observe of it: its \<^verbatim>\<open>valueOf\<close>, \<^verbatim>\<open>toJSON\<close> and
  \<^verbatim>\<open>toString\<close> properties (the three arguments of \<open>JSObject\<close>, in this order), each
  absent (\<open>None\<close>, the property is not a function) or a method that takes no argument
  and returns a fixed value or the object itself (as \<^verbatim>\<open>Object.prototype.valueOf\<close> does).
  Symbols, BigInts, functions, objects with a \<^verbatim>\<open>Symbol.toPrimitive\<close> method, and methods
  that raise or have effects are outside the model.
\<close>

datatype js_value =
    JSUndefined
  | JSNull
  | JSBoolean bool
  | JSNumber js_number
  | JSString string
  | JSArray "js_value list"
  | JSObject "js_method option" "js_method option" "js_method option"
and js_method = Returns js_value | ReturnsThis

text \<open>Calling a method on the receiver \<open>this\<close>.\<close>

fun call_method :: "js_method \<Rightarrow> js_value \<Rightarrow> js_value" where
  "call_method (Returns v) this = v"
| "call_method ReturnsThis this = this"

text \<open>An exception: the source raises \<^verbatim>\<open>TypeError\<close> only, and so do the conversions.\<close>

datatype js_error = TypeError string

type_synonym 'a result = "js_error + 'a"

section \<open>Numbers and strings\<close>

subsection \<open>Doubles\<close>

definition pow2 :: "int \<Rightarrow> rat" where
  "pow2 e = (if e < 0 then 1 / 2 ^ nat (- e) else 2 ^ nat e)"

definition power10 :: "int \<Rightarrow> rat" where
  "power10 e = (if e < 0 then 1 / 10 ^ nat (- e) else 10 ^ nat e)"

text \<open>The number of binary digits of a positive integer.\<close>

function bit_length :: "int \<Rightarrow> int" where
  "bit_length n = (if n \<le> 0 then 0 else 1 + bit_length (n div 2))"
  by pat_completeness auto
termination
  by (relation "measure nat") auto

declare bit_length.simps [simp del]

text \<open>The binary exponent of a positive rational \<open>q\<close>: the \<open>e\<close> with \<open>2^e \<le> q < 2^(e+1)\<close>.\<close>

definition floor_log2 :: "rat \<Rightarrow> int" where
  "floor_log2 q =
     (if 1 \<le> q then bit_length \<lfloor>q\<rfloor> - 1
      else let b = bit_length \<lfloor>1 / q\<rfloor> in if pow2 (1 - b) \<le> q then 1 - b else - b)"

text \<open>The nearest integer; of two equally near ones, the even one.\<close>

definition round_half_even :: "rat \<Rightarrow> int" where
  "round_half_even r =
     (let f = \<lfloor>r\<rfloor>; d = r - of_int f
      in if d < 1 / 2 then f else if 1 / 2 < d then f + 1 else if even f then f else f + 1)"

text \<open>
  The Number value for a real: the nearest double, ties to the even significand
  (IEEE 754 round to nearest, ties to even). With \<open>e\<close> the binary exponent of the
  magnitude, the doubles around it are the multiples of \<open>2^(e - 52)\<close>, or of \<open>2^(-1074)\<close>
  in the subnormal range; a result that reaches \<open>2^1024\<close> is an infinity, and a magnitude
  of at most \<open>2^(-1075)\<close> gives zero.
\<close>

definition round_to_double :: "rat \<Rightarrow> js_number" where
  "round_to_double q =
     (if q = 0 then Finite 0
      else
        let a = \<bar>q\<bar>;
            e = floor_log2 a;
            p = max (e - 52) (- 1074);
            m = round_half_even (a / pow2 p);
            r = of_int m * pow2 p
        in if 2 ^ 1024 \<le> r then (if q < 0 then NegInfinity else PosInfinity)
           else Finite (if q < 0 then - r else r))"

fun round_number :: "js_number \<Rightarrow> js_number" where
  "round_number (Finite q) = round_to_double q"
| "round_number n = n"

subsection \<open>Number to string\<close>

definition digit_char :: "nat \<Rightarrow> char" where
  "digit_char d = ''0123456789'' ! (d mod 10)"

fun digits_of_nat :: "nat \<Rightarrow> string" where
  "digits_of_nat n =
     (if n < 10 then [digit_char n] else digits_of_nat (n div 10) @ [digit_char (n mod 10)])"

declare digits_of_nat.simps [simp del]

text \<open>The exponent part of the scientific notation: \<^verbatim>\<open>e+21\<close>, \<^verbatim>\<open>e-7\<close>.\<close>

definition exponent_part :: "int \<Rightarrow> string" where
  "exponent_part e =
     ''e'' @ (if e < 0 then ''-'' else ''+'') @ digits_of_nat (nat \<bar>e\<bar>)"

text \<open>
  The decimal exponent of a positive \<open>x\<close>: the \<open>n\<close> with \<open>10^(n - 1) \<le> x < 10^n\<close>, found
  by counting up or down from the unit (the doubles lie between \<open>10^(-324)\<close> and
  \<open>10^309\<close>, so 400 steps reach it).
\<close>

fun decimal_exponent_up :: "nat \<Rightarrow> rat \<Rightarrow> int \<Rightarrow> int" where
  "decimal_exponent_up 0 x n = n"
| "decimal_exponent_up (Suc fuel) x n =
     (if x < power10 n then n else decimal_exponent_up fuel x (n + 1))"

fun decimal_exponent_down :: "nat \<Rightarrow> rat \<Rightarrow> int \<Rightarrow> int" where
  "decimal_exponent_down 0 x n = n"
| "decimal_exponent_down (Suc fuel) x n =
     (if power10 (n - 1) \<le> x then n else decimal_exponent_down fuel x (n - 1))"

definition decimal_exponent :: "rat \<Rightarrow> int" where
  "decimal_exponent x =
     (if 1 \<le> x then decimal_exponent_up 400 x 1 else decimal_exponent_down 400 x 0)"

text \<open>
  \<^verbatim>\<open>Number::toString\<close> (radix 10) of ECMAScript takes integers \<open>n\<close>, \<open>k\<close> and \<open>s\<close> with
  \<open>k \<ge> 1\<close>, \<open>10^(k - 1) \<le> s < 10^k\<close>, such that \<open>s * 10^(n - k)\<close> has the Number value \<open>x\<close>
  and \<open>k\<close> is as small as possible; of several \<open>s\<close> the one whose value is closest to \<open>x\<close>,
  and of two equally close ones the even one.

  \<open>digits_candidate x n k\<close> is that \<open>s\<close> for a given \<open>k\<close>, if there is one: the multiples of
  \<open>10^(n - k)\<close> closest to \<open>x\<close> are the one just below or at \<open>x\<close> and the one just above,
  and the set of reals with Number value \<open>x\<close> is an interval around \<open>x\<close>.
  \<open>shortest_digits\<close> tries \<open>k = 1, 2, \<dots>\<close>; 17 digits always identify a double.
\<close>

definition digits_candidate :: "rat \<Rightarrow> int \<Rightarrow> int \<Rightarrow> int option" where
  "digits_candidate x n k =
     (let scale = power10 (n - k);
          lo = \<lfloor>x / scale\<rfloor>;
          hi = lo + 1;
          lo_ok = (round_to_double (of_int lo * scale) = Finite x);
          hi_ok = (round_to_double (of_int hi * scale) = Finite x);
          d_lo = x - of_int lo * scale;
          d_hi = of_int hi * scale - x
      in if lo_ok \<and> hi_ok then
           (if d_lo < d_hi then Some lo else if d_hi < d_lo then Some hi
            else if even lo then Some lo else Some hi)
         else if lo_ok then Some lo
         else if hi_ok then Some hi
         else None)"

fun shortest_digits :: "nat \<Rightarrow> rat \<Rightarrow> int \<Rightarrow> int \<Rightarrow> int \<times> int" where
  "shortest_digits 0 x n k = (\<lfloor>x / power10 (n - k)\<rfloor>, n)"
| "shortest_digits (Suc fuel) x n k =
     (case digits_candidate x n k of
        Some s \<Rightarrow> if s = 10 ^ nat k then (10 ^ nat (k - 1), n + 1) else (s, n)
      | None \<Rightarrow> shortest_digits fuel x n (k + 1))"

text \<open>The pair \<open>(s, n)\<close> of a positive double.\<close>

definition shortest_decimal :: "rat \<Rightarrow> int \<times> int" where
  "shortest_decimal x = shortest_digits 17 x (decimal_exponent x) 1"

text \<open>The four layouts of \<^verbatim>\<open>Number::toString\<close>, with \<open>k\<close> the count of the digits of \<open>s\<close>.\<close>

definition positive_to_string :: "rat \<Rightarrow> string" where
  "positive_to_string q =
     (let (s, n) = shortest_decimal q;
          digits = digits_of_nat (nat s);
          k = int (length digits)
      in if k \<le> n \<and> n \<le> 21 then digits @ replicate (nat (n - k)) CHR ''0''
         else if 0 < n \<and> n \<le> 21 then take (nat n) digits @ ''.'' @ drop (nat n) digits
         else if - 6 < n \<and> n \<le> 0 then ''0.'' @ replicate (nat (- n)) CHR ''0'' @ digits
         else if k = 1 then digits @ exponent_part (n - 1)
         else take 1 digits @ ''.'' @ drop 1 digits @ exponent_part (n - 1))"

fun NumberToString :: "js_number \<Rightarrow> string" where
  "NumberToString NaN = ''NaN''"
| "NumberToString PosInfinity = ''Infinity''"
| "NumberToString NegInfinity = ''-Infinity''"
| "NumberToString (Finite q) =
     (if q = 0 then ''0''
      else if q < 0 then ''-'' @ positive_to_string (- q)
      else positive_to_string q)"

subsection \<open>String to number\<close>

text \<open>
  White space and line terminators, which the runtime skips around a numeric text: of
  the characters below 256 these are tab, line feed, vertical tab, form feed, carriage
  return, space and the no-break space U+00A0.
\<close>

definition is_whitespace :: "char \<Rightarrow> bool" where
  "is_whitespace c =
     (c \<in> set [CHR 0x09, CHR 0x0A, CHR 0x0B, CHR 0x0C, CHR 0x0D, CHR '' '', CHR 0xA0])"

definition digit_value :: "char \<Rightarrow> nat option" where
  "digit_value c =
     (let n = (of_char c :: nat) in
      if 48 \<le> n \<and> n \<le> 57 then Some (n - 48)
      else if 97 \<le> n \<and> n \<le> 122 then Some (n - 87)
      else if 65 \<le> n \<and> n \<le> 90 then Some (n - 55)
      else None)"

definition is_digit :: "nat \<Rightarrow> char \<Rightarrow> bool" where
  "is_digit radix c = (case digit_value c of None \<Rightarrow> False | Some d \<Rightarrow> d < radix)"

definition digits_value :: "nat \<Rightarrow> string \<Rightarrow> nat" where
  "digits_value radix ds = foldl (\<lambda>acc c. radix * acc + the (digit_value c)) 0 ds"

text \<open>
  The longest prefix of a text that is a \<^verbatim>\<open>StrUnsignedDecimalLiteral\<close>
  (\<^verbatim>\<open>Infinity\<close>, or digits with an optional fraction and an optional exponent, at least
  one digit before the exponent), with its mathematical value (the MV of ECMAScript,
  an exact rational, not yet a double) and the rest of the text; \<open>None\<close> when no prefix
  is one. \<open>StringToNumber\<close> and \<open>parseFloat\<close> below round the mathematical value to the
  nearest double.
\<close>

definition parse_exponent :: "string \<Rightarrow> int \<times> string" where
  "parse_exponent t =
     (case t of
        c # r \<Rightarrow>
          if c = CHR ''e'' \<or> c = CHR ''E'' then
            (let (neg, r') = (case r of
                                d # r2 \<Rightarrow> if d = CHR ''-'' then (True, r2)
                                          else if d = CHR ''+'' then (False, r2)
                                          else (False, r)
                              | [] \<Rightarrow> (False, r));
                 ds = takeWhile (is_digit 10) r'
             in if ds = [] then (0, t)
                else ((if neg then - int (digits_value 10 ds) else int (digits_value 10 ds)),
                      dropWhile (is_digit 10) r'))
          else (0, t)
      | [] \<Rightarrow> (0, t))"

definition parse_unsigned_decimal :: "string \<Rightarrow> (js_number \<times> string) option" where
  "parse_unsigned_decimal t =
     (if take 8 t = ''Infinity'' then Some (PosInfinity, drop 8 t)
      else
        let ip = takeWhile (is_digit 10) t;
            r1 = dropWhile (is_digit 10) t;
            has_dot = (r1 \<noteq> [] \<and> hd r1 = CHR ''.'');
            fp = (if has_dot then takeWhile (is_digit 10) (tl r1) else []);
            r2 = (if has_dot then dropWhile (is_digit 10) (tl r1) else r1)
        in if ip = [] \<and> fp = [] then None
           else
             let (e, r3) = parse_exponent r2;
                 mantissa = of_nat (digits_value 10 ip)
                            + of_nat (digits_value 10 fp) / 10 ^ length fp
             in Some (Finite (mantissa * power10 e), r3))"

text \<open>\<^verbatim>\<open>StrDecimalLiteral\<close>: an optional sign before the unsigned literal.\<close>

definition parse_decimal :: "string \<Rightarrow> (js_number \<times> string) option" where
  "parse_decimal t =
     (case t of
        c # r \<Rightarrow>
          if c = CHR ''-'' then map_option (\<lambda>(v, rest). (num_negate v, rest)) (parse_unsigned_decimal r)
          else if c = CHR ''+'' then parse_unsigned_decimal r
          else parse_unsigned_decimal t
      | [] \<Rightarrow> None)"

definition trim_start :: "string \<Rightarrow> string" where
  "trim_start t = dropWhile is_whitespace t"

definition trim :: "string \<Rightarrow> string" where
  "trim t = rev (dropWhile is_whitespace (rev (dropWhile is_whitespace t)))"

text \<open>
  \<^verbatim>\<open>0x\<close>, \<^verbatim>\<open>0o\<close> and \<^verbatim>\<open>0b\<close> literals: no sign, one digit at least, nothing after; the
  result is the mathematical value.
\<close>

definition parse_non_decimal :: "string \<Rightarrow> js_number option" where
  "parse_non_decimal t =
     (case t of
        z # p # ds \<Rightarrow>
          (let radix = (if p = CHR ''x'' \<or> p = CHR ''X'' then 16
                        else if p = CHR ''o'' \<or> p = CHR ''O'' then 8
                        else if p = CHR ''b'' \<or> p = CHR ''B'' then 2 else (0::nat))
           in if z = CHR ''0'' \<and> radix \<noteq> 0 \<and> ds \<noteq> [] \<and> list_all (is_digit radix) ds
              then Some (Finite (of_nat (digits_value radix ds)))
              else None)
      | _ \<Rightarrow> None)"

text \<open>
  \<^verbatim>\<open>StringToNumber\<close> of ECMAScript: the trimmed text is empty (zero), a non-decimal
  integer literal, or a whole decimal literal, whose mathematical value is rounded to
  the nearest double; anything else is NaN. (Where ECMAScript lets an implementation
  round a literal of more than 20 significant digits less exactly, the model rounds
  exactly, as the common engines do.)
\<close>

definition StringToNumber :: "string \<Rightarrow> js_number" where
  "StringToNumber t =
     (let u = trim t in
      if u = [] then Finite 0
      else case parse_non_decimal u of
             Some v \<Rightarrow> round_number v
           | None \<Rightarrow>
               (case parse_decimal u of
                  Some (v, rest) \<Rightarrow> if rest = [] then round_number v else NaN
                | None \<Rightarrow> NaN))"

text \<open>
  \<^verbatim>\<open>parseFloat(text)\<close>: the longest prefix of the text, leading white space skipped,
  that is a decimal literal, rounded to the nearest double; NaN when there is none.
\<close>

definition parseFloat :: "string \<Rightarrow> js_number" where
  "parseFloat t =
     (case parse_decimal (trim_start t) of
        Some (v, rest) \<Rightarrow> round_number v
      | None \<Rightarrow> NaN)"

text \<open>
  \<^verbatim>\<open>parseInt(text, 10)\<close>: leading white space skipped, an optional sign, then the
  longest run of decimal digits; NaN when the run is empty. (The radix is 10 at the one
  place the source calls it, so no \<^verbatim>\<open>0x\<close> prefix is recognised.) The result is the
  integer the digits denote: the runtime rounds it to a double, which changes it only
  beyond \<open>2^53\<close>, far outside the range the one caller accepts, and leaves it on the
  same side of that range.
\<close>

definition parseInt10 :: "string \<Rightarrow> js_number" where
  "parseInt10 t =
     (let s = trim_start t;
          neg = (s \<noteq> [] \<and> hd s = CHR ''-'');
          s' = (if s \<noteq> [] \<and> (hd s = CHR ''-'' \<or> hd s = CHR ''+'') then tl s else s);
          z = takeWhile (is_digit 10) s'
      in if z = [] then NaN
         else if neg then Finite (- of_nat (digits_value 10 z))
         else Finite (of_nat (digits_value 10 z)))"

section \<open>The generic conversions\<close>

text \<open>\<^verbatim>\<open>typeof v === 'object' && v !== null\<close>: arrays and objects.\<close>

fun is_object :: "js_value \<Rightarrow> bool" where
  "is_object (JSArray xs) = True"
| "is_object (JSObject vo tj ts) = True"
| "is_object v = False"

text \<open>
  The properties \<^verbatim>\<open>valueOf\<close>, \<^verbatim>\<open>toJSON\<close> and \<^verbatim>\<open>toString\<close> of an array or an
  object, when they are functions. An array inherits \<^verbatim>\<open>Object.prototype.valueOf\<close>, which
  returns the array, and has no \<^verbatim>\<open>toJSON\<close>; its \<^verbatim>\<open>toString\<close> is the join below.
  They are read on arrays and objects only.
\<close>

fun get_valueOf :: "js_value \<Rightarrow> js_method option" where
  "get_valueOf (JSObject vo tj ts) = vo"
| "get_valueOf (JSArray xs) = Some ReturnsThis"
| "get_valueOf v = None"

fun get_toJSON :: "js_value \<Rightarrow> js_method option" where
  "get_toJSON (JSObject vo tj ts) = tj"
| "get_toJSON v = None"

fun get_toString :: "js_value \<Rightarrow> js_method option" where
  "get_toString (JSObject vo tj ts) = ts"
| "get_toString v = None"

definition cannot_convert :: js_error where
  "cannot_convert = TypeError ''Cannot convert object to primitive value''"

text \<open>
  \<^verbatim>\<open>OrdinaryToPrimitive\<close>: the methods are tried in the order given; the first one that
  is a function and returns a value that is not an object gives the result. When none
  does, the runtime raises a TypeError (the wording of its message is the engine's).
\<close>

fun OrdinaryToPrimitive :: "js_method option list \<Rightarrow> js_value \<Rightarrow> js_value result" where
  "OrdinaryToPrimitive [] this = Inl cannot_convert"
| "OrdinaryToPrimitive (None # ms) this = OrdinaryToPrimitive ms this"
| "OrdinaryToPrimitive (Some m # ms) this =
     (if is_object (call_method m this) then OrdinaryToPrimitive ms this
      else Inr (call_method m this))"

text \<open>\<^verbatim>\<open>ToString\<close> and \<^verbatim>\<open>ToNumber\<close> on the primitives.\<close>

fun primitive_to_string :: "js_value \<Rightarrow> string" where
  "primitive_to_string JSUndefined = ''undefined''"
| "primitive_to_string JSNull = ''null''"
| "primitive_to_string (JSBoolean b) = (if b then ''true'' else ''false'')"
| "primitive_to_string (JSNumber n) = NumberToString n"
| "primitive_to_string (JSString s) = s"
| "primitive_to_string v = []"

fun primitive_to_number :: "js_value \<Rightarrow> js_number" where
  "primitive_to_number JSUndefined = NaN"
| "primitive_to_number JSNull = Finite 0"
| "primitive_to_number (JSBoolean b) = (if b then Finite 1 else Finite 0)"
| "primitive_to_number (JSNumber n) = n"
| "primitive_to_number (JSString s) = StringToNumber s"
| "primitive_to_number v = NaN"

text \<open>
  \<^verbatim>\<open>String(v)\<close>. On an object: \<^verbatim>\<open>ToPrimitive\<close> with hint string (\<^verbatim>\<open>toString\<close> first, then
  \<^verbatim>\<open>valueOf\<close>), then the string of the primitive. On an array:
  \<^verbatim>\<open>Array.prototype.join\<close> with a comma, where \<^verbatim>\<open>undefined\<close> and \<^verbatim>\<open>null\<close> elements
  give the empty text.
\<close>

fun String_conv :: "js_value \<Rightarrow> string result"
  and join_elements :: "js_value list \<Rightarrow> string result" where
  "String_conv (JSArray xs) = join_elements xs"
| "String_conv (JSObject vo tj ts) =
     (case OrdinaryToPrimitive [ts, vo] (JSObject vo tj ts) of
        Inl e \<Rightarrow> Inl e
      | Inr p \<Rightarrow> Inr (primitive_to_string p))"
| "String_conv JSUndefined = Inr (primitive_to_string JSUndefined)"
| "String_conv JSNull = Inr (primitive_to_string JSNull)"
| "String_conv (JSBoolean b) = Inr (primitive_to_string (JSBoolean b))"
| "String_conv (JSNumber n) = Inr (primitive_to_string (JSNumber n))"
| "String_conv (JSString s) = Inr (primitive_to_string (JSString s))"
| "join_elements [] = Inr []"
| "join_elements (x # xs) =
     (case (if x = JSUndefined \<or> x = JSNull then Inr [] else String_conv x) of
        Inl e \<Rightarrow> Inl e
      | Inr s \<Rightarrow>
          if xs = [] then Inr s
          else (case join_elements xs of Inl e \<Rightarrow> Inl e | Inr r \<Rightarrow> Inr (s @ '','' @ r)))"

text \<open>
  \<^verbatim>\<open>Number(v)\<close>. On an object: \<^verbatim>\<open>ToPrimitive\<close> with hint number (\<^verbatim>\<open>valueOf\<close> first, then
  \<^verbatim>\<open>toString\<close>), then the number of the primitive. On an array \<^verbatim>\<open>valueOf\<close> returns the
  array, so the join is the primitive.
\<close>

fun Number_conv :: "js_value \<Rightarrow> js_number result" where
  "Number_conv (JSArray xs) =
     (case join_elements xs of Inl e \<Rightarrow> Inl e | Inr s \<Rightarrow> Inr (StringToNumber s))"
| "Number_conv (JSObject vo tj ts) =
     (case OrdinaryToPrimitive [vo, ts] (JSObject vo tj ts) of
        Inl e \<Rightarrow> Inl e
      | Inr p \<Rightarrow> Inr (primitive_to_number p))"
| "Number_conv v = Inr (primitive_to_number v)"

text \<open>\<^verbatim>\<open>Boolean(v)\<close>: false on undefined, null, false, zero, NaN and the empty text.\<close>

fun Boolean_conv :: "js_value \<Rightarrow> bool" where
  "Boolean_conv JSUndefined = False"
| "Boolean_conv JSNull = False"
| "Boolean_conv (JSBoolean b) = b"
| "Boolean_conv (JSNumber n) = (n \<noteq> NaN \<and> n \<noteq> Finite 0)"
| "Boolean_conv (JSString s) = (s \<noteq> [])"
| "Boolean_conv v = True"

fun Array_isArray :: "js_value \<Rightarrow> bool" where
  "Array_isArray (JSArray xs) = True"
| "Array_isArray v = False"

section \<open>Literal nodes\<close>


datatype ValueNode =
    VariableNode string
  | IntValueNode string
  | FloatValueNode string
  | StringValueNode string
  | BooleanValueNode bool
  | NullValueNode
  | EnumValueNode string
  | ListValueNode "ValueNode list"
  | ObjectValueNode "(string \<times> ValueNode) list"


section \<open>The scalar types of \<^verbatim>\<open>src/type/scalars.ts\<close>\<close>

text \<open>
  The three operations of a scalar return a value or raise; \<open>Inl\<close> is the exception.
  \<^verbatim>\<open>parseLiteral\<close> returns \<^verbatim>\<open>undefined\<close> for a node it does not accept.
\<close>

definition GRAPHQL_MAX_INT :: js_number where
  "GRAPHQL_MAX_INT = Finite 2147483647"

definition GRAPHQL_MIN_INT :: js_number where
  "GRAPHQL_MIN_INT = Finite (- 2147483648)"

subsection \<open>Int\<close>

definition GraphQLInt_serialize :: "js_value \<Rightarrow> js_value result" where
  "GraphQLInt_serialize outputValue =
     (if outputValue = JSString [] then
        Inl (TypeError ''Int cannot represent non 32-bit signed integer value: (empty string)'')
      else
        case Number_conv outputValue of
          Inl e \<Rightarrow> Inl e
        | Inr num \<Rightarrow>
            if \<not> num_strict_eq num num \<or> num_greater num GRAPHQL_MAX_INT
               \<or> num_less num GRAPHQL_MIN_INT then
              (case String_conv outputValue of
                 Inl e \<Rightarrow> Inl e
               | Inr s \<Rightarrow>
                   Inl (TypeError (''Int cannot represent non 32-bit signed integer value: '' @ s)))
            else
              let int = Math_floor num in
              if \<not> num_strict_eq int num then
                (case String_conv outputValue of
                   Inl e \<Rightarrow> Inl e
                 | Inr s \<Rightarrow> Inl (TypeError (''Int cannot represent non-integer value: '' @ s)))
              else Inr (JSNumber int))"

definition GraphQLInt_parseValue :: "js_value \<Rightarrow> js_value result" where
  "GraphQLInt_parseValue inputValue =
     (if inputValue = JSString [] then
        Inl (TypeError ''Int cannot represent non 32-bit signed integer value: (empty string)'')
      else
        case Number_conv inputValue of
          Inl e \<Rightarrow> Inl e
        | Inr num \<Rightarrow>
            if \<not> num_strict_eq num num \<or> num_greater num GRAPHQL_MAX_INT
               \<or> num_less num GRAPHQL_MIN_INT then
              (case String_conv inputValue of
                 Inl e \<Rightarrow> Inl e
               | Inr s \<Rightarrow>
                   Inl (TypeError (''Int cannot represent non 32-bit signed integer value: '' @ s)))
            else
              let int = Math_floor num in
              if \<not> num_strict_eq int num then
                (case String_conv inputValue of
                   Inl e \<Rightarrow> Inl e
                 | Inr s \<Rightarrow> Inl (TypeError (''Int cannot represent non-integer value: '' @ s)))
              else Inr (JSNumber int))"

definition GraphQLInt_parseLiteral :: "ValueNode \<Rightarrow> js_value result" where
  "GraphQLInt_parseLiteral ast =
     (case ast of
        IntValueNode text \<Rightarrow>
          (let num = parseInt10 text in
           if num_le num GRAPHQL_MAX_INT \<and> num_ge num GRAPHQL_MIN_INT then Inr (JSNumber num)
           else Inr JSUndefined)
      | _ \<Rightarrow> Inr JSUndefined)"

subsection \<open>Float\<close>

definition GraphQLFloat_serialize :: "js_value \<Rightarrow> js_value result" where
  "GraphQLFloat_serialize outputValue =
     (if outputValue = JSString [] then
        Inl (TypeError ''Float cannot represent non numeric value: (empty string)'')
      else
        case Number_conv outputValue of
          Inl e \<Rightarrow> Inl e
        | Inr num \<Rightarrow>
            if num_strict_eq num num then Inr (JSNumber num)
            else
              (case String_conv outputValue of
                 Inl e \<Rightarrow> Inl e
               | Inr s \<Rightarrow> Inl (TypeError (''Float cannot represent non numeric value: '' @ s))))"

definition GraphQLFloat_parseValue :: "js_value \<Rightarrow> js_value result" where
  "GraphQLFloat_parseValue inputValue =
     (if inputValue = JSString [] then
        Inl (TypeError ''Float cannot represent non numeric value: (empty string)'')
      else
        case Number_conv inputValue of
          Inl e \<Rightarrow> Inl e
        | Inr num \<Rightarrow>
            if num_strict_eq num num then Inr (JSNumber num)
            else
              (case String_conv inputValue of
                 Inl e \<Rightarrow> Inl e
               | Inr s \<Rightarrow> Inl (TypeError (''Float cannot represent non numeric value: '' @ s))))"

definition GraphQLFloat_parseLiteral :: "ValueNode \<Rightarrow> js_value result" where
  "GraphQLFloat_parseLiteral ast =
     (case ast of
        FloatValueNode text \<Rightarrow> Inr (JSNumber (parseFloat text))
      | IntValueNode text \<Rightarrow> Inr (JSNumber (parseFloat text))
      | _ \<Rightarrow> Inr JSUndefined)"

subsection \<open>String\<close>

definition GraphQLString_serialize :: "js_value \<Rightarrow> js_value result" where
  "GraphQLString_serialize outputValue =
     (if Array_isArray outputValue then
        (case String_conv outputValue of
           Inl e \<Rightarrow> Inl e
         | Inr s \<Rightarrow> Inl (TypeError (''String cannot represent an array value: ['' @ s @ '']'')))
      else
        case String_conv outputValue of Inl e \<Rightarrow> Inl e | Inr s \<Rightarrow> Inr (JSString s))"

definition GraphQLString_parseValue :: "js_value \<Rightarrow> js_value result" where
  "GraphQLString_parseValue inputValue =
     (if Array_isArray inputValue then
        (case String_conv inputValue of
           Inl e \<Rightarrow> Inl e
         | Inr s \<Rightarrow> Inl (TypeError (''String cannot represent an array value: ['' @ s @ '']'')))
      else
        case String_conv inputValue of Inl e \<Rightarrow> Inl e | Inr s \<Rightarrow> Inr (JSString s))"

definition GraphQLString_parseLiteral :: "ValueNode \<Rightarrow> js_value result" where
  "GraphQLString_parseLiteral ast =
     (case ast of StringValueNode text \<Rightarrow> Inr (JSString text) | _ \<Rightarrow> Inr JSUndefined)"

subsection \<open>Boolean\<close>

definition GraphQLBoolean_serialize :: "js_value \<Rightarrow> js_value result" where
  "GraphQLBoolean_serialize outputValue = Inr (JSBoolean (Boolean_conv outputValue))"

definition GraphQLBoolean_parseValue :: "js_value \<Rightarrow> js_value result" where
  "GraphQLBoolean_parseValue inputValue = Inr (JSBoolean (Boolean_conv inputValue))"

definition GraphQLBoolean_parseLiteral :: "ValueNode \<Rightarrow> js_value result" where
  "GraphQLBoolean_parseLiteral ast =
     (case ast of BooleanValueNode b \<Rightarrow> Inr (JSBoolean b) | _ \<Rightarrow> Inr JSUndefined)"

subsection \<open>ID\<close>

definition GraphQLID_serialize :: "js_value \<Rightarrow> js_value result" where
  "GraphQLID_serialize outputValue =
     (case String_conv outputValue of Inl e \<Rightarrow> Inl e | Inr s \<Rightarrow> Inr (JSString s))"

definition GraphQLID_parseValue :: "js_value \<Rightarrow> js_value result" where
  "GraphQLID_parseValue inputValue =
     (case String_conv inputValue of Inl e \<Rightarrow> Inl e | Inr s \<Rightarrow> Inr (JSString s))"

definition GraphQLID_parseLiteral :: "ValueNode \<Rightarrow> js_value result" where
  "GraphQLID_parseLiteral ast =
     (case ast of
        StringValueNode text \<Rightarrow> Inr (JSString text)
      | IntValueNode text \<Rightarrow> Inr (JSString text)
      | _ \<Rightarrow> Inr JSUndefined)"

subsection \<open>The scalar type objects and their list\<close>

text \<open>
  Modelled from the spec: the class \<^verbatim>\<open>GraphQLScalarType\<close> of \<^verbatim>\<open>src/type/definition.ts\<close> is
  not part of the sources at hand. A scalar definition is the immutable record of its
  name, its description and its three operations, which are the ones the source passes
  to the constructor. A named type is anything with a name.
\<close>

record named_type =
  name :: string

record scalar_type = named_type +
  description :: string
  serialize :: "js_value \<Rightarrow> js_value result"
  parseValue :: "js_value \<Rightarrow> js_value result"
  parseLiteral :: "ValueNode \<Rightarrow> js_value result"

definition GraphQLInt :: scalar_type where
  "GraphQLInt =
     \<lparr> name = ''Int'',
       description = ''The `Int` scalar type represents non-fractional signed whole numeric values. Int can represent values between -(2^31) and 2^31 - 1.'',
       serialize = GraphQLInt_serialize,
       parseValue = GraphQLInt_parseValue,
       parseLiteral = GraphQLInt_parseLiteral \<rparr>"

definition GraphQLFloat :: scalar_type where
  "GraphQLFloat =
     \<lparr> name = ''Float'',
       description = ''The `Float` scalar type represents signed double-precision fractional values as specified by [IEEE 754](https://en.wikipedia.org/wiki/IEEE_floating_point).'',
       serialize = GraphQLFloat_serialize,
       parseValue = GraphQLFloat_parseValue,
       parseLiteral = GraphQLFloat_parseLiteral \<rparr>"

definition GraphQLString :: scalar_type where
  "GraphQLString =
     \<lparr> name = ''String'',
       description = ''The `String` scalar type represents textual data, represented as UTF-8 character sequences. The String type is most often used by GraphQL to represent free-form human-readable text.'',
       serialize = GraphQLString_serialize,
       parseValue = GraphQLString_parseValue,
       parseLiteral = GraphQLString_parseLiteral \<rparr>"

definition GraphQLBoolean :: scalar_type where
  "GraphQLBoolean =
     \<lparr> name = ''Boolean'',
       description = ''The `Boolean` scalar type represents `true` or `false`.'',
       serialize = GraphQLBoolean_serialize,
       parseValue = GraphQLBoolean_parseValue,
       parseLiteral = GraphQLBoolean_parseLiteral \<rparr>"

definition GraphQLID :: scalar_type where
  "GraphQLID =
     \<lparr> name = ''ID'',
       description = ''The `ID` scalar type represents a unique identifier, often used to refetch an object or as key for a cache. The ID type appears in a JSON response as a String; however, it is not intended to be human-readable. When expected as an input type, any string (such as `\"4\"`) or integer (such as `4`) input value will be accepted as an ID.'',
       serialize = GraphQLID_serialize,
       parseValue = GraphQLID_parseValue,
       parseLiteral = GraphQLID_parseLiteral \<rparr>"

definition specifiedScalarTypes :: "scalar_type list" where
  "specifiedScalarTypes =
     [GraphQLString, GraphQLInt, GraphQLFloat, GraphQLBoolean, GraphQLID]"

text \<open>
  The argument is any named type (\<^verbatim>\<open>GraphQLNamedType\<close>): only its name is read.
  \<^verbatim>\<open>Array.prototype.some\<close> is \<open>list_ex\<close>.
\<close>

definition isSpecifiedScalarType :: "'a named_type_scheme \<Rightarrow> bool" where
  "isSpecifiedScalarType type = list_ex (\<lambda>s. name type = name s) specifiedScalarTypes"

subsection \<open>Serializing objects\<close>

text \<open>
  Modelled from the spec: \<^verbatim>\<open>isObjectLike\<close> of \<^verbatim>\<open>src/jsutils/isObjectLike.ts\<close> is not part
  of the sources at hand. A value is object-like when its type is object and it is not
  null (\<^verbatim>\<open>typeof value == 'object' && value !== null\<close>): an array or an object.
\<close>

definition isObjectLike :: "js_value \<Rightarrow> bool" where
  "isObjectLike v = is_object v"

definition serializeObject :: "js_value \<Rightarrow> js_value" where
  "serializeObject outputValue =
     (if isObjectLike outputValue then
        (case (case get_valueOf outputValue of
                 Some m \<Rightarrow>
                   (let valueOfResult = call_method m outputValue in
                    if \<not> isObjectLike valueOfResult then Some valueOfResult else None)
               | None \<Rightarrow> None) of
           Some early \<Rightarrow> early
         | None \<Rightarrow>
             (case get_toJSON outputValue of
                Some m \<Rightarrow> call_method m outputValue
              | None \<Rightarrow> outputValue))
      else outputValue)"

section \<open>Notions used to state the properties\<close>

text \<open>A number in the signed 32-bit range: finite, between the two bounds.\<close>

definition in_int32_range :: "js_number \<Rightarrow> bool" where
  "in_int32_range num =
     (case num of Finite q \<Rightarrow> - 2147483648 \<le> q \<and> q \<le> 2147483647 | _ \<Rightarrow> False)"

text \<open>A fractional number: finite and not an integer.\<close>

definition fractional :: "js_number \<Rightarrow> bool" where
  "fractional num = (case num of Finite q \<Rightarrow> q \<notin> \<int> | _ \<Rightarrow> False)"


section \<open>Basic facts about the number operations\<close>

lemma num_strict_eq_self: "num_strict_eq n n = (n \<noteq> NaN)"
  by (simp add: num_strict_eq_def)

lemma digits_of_nat_numeral:
  "digits_of_nat (numeral k) =
     (if (numeral k :: nat) < 10 then [digit_char (numeral k)]
      else digits_of_nat (numeral k div 10) @ [digit_char (numeral k mod 10)])"
  by (rule digits_of_nat.simps)

lemma digits_of_nat_small:
  "digits_of_nat 0 = ''0''" "digits_of_nat 1 = ''1''" "digits_of_nat (Suc 0) = ''1''"
  by (simp_all add: digits_of_nat.simps digit_char_def)

lemma floor_rat_numeral: "\<lfloor>(numeral a :: rat) / numeral b\<rfloor> = numeral a div numeral b"
  by (metis floor_divide_of_int_eq of_int_numeral)

lemma bit_length_numeral:
  "bit_length (numeral k) = 1 + bit_length (numeral k div 2)"
  "bit_length 1 = 1" "bit_length 0 = 0"
  by (subst bit_length.simps, simp add: bit_length.simps)+

lemma shortest_digits_numeral:
  "shortest_digits (numeral f) x n k =
     (case digits_candidate x n k of
        Some s \<Rightarrow> if s = 10 ^ nat k then (10 ^ nat (k - 1), n + 1) else (s, n)
      | None \<Rightarrow> shortest_digits (pred_numeral f) x n (k + 1))"
  by (simp add: numeral_eq_Suc)

lemma decimal_exponent_up_numeral:
  "decimal_exponent_up (numeral f) x n =
     (if x < power10 n then n else decimal_exponent_up (pred_numeral f) x (n + 1))"
  by (simp add: numeral_eq_Suc)

lemma decimal_exponent_down_numeral:
  "decimal_exponent_down (numeral f) x n =
     (if power10 (n - 1) \<le> x then n else decimal_exponent_down (pred_numeral f) x (n - 1))"
  by (simp add: numeral_eq_Suc)

lemma Let_value:
  "\<And>f. Let (numeral a / numeral b :: rat) f = f (numeral a / numeral b)"
  "\<And>f. Let (- (numeral a / numeral b) :: rat) f = f (- (numeral a / numeral b))"
  "\<And>f. Let (1 / numeral b :: rat) f = f (1 / numeral b)"
  "\<And>f. Let True f = f True"
  "\<And>f. Let False f = f False"
  by (simp_all add: Let_def)

lemma bit_length_bounds:
  "0 < n \<Longrightarrow> 0 < bit_length n \<and> 2 ^ nat (bit_length n - 1) \<le> n \<and> n < 2 ^ nat (bit_length n)"
proof (induction n rule: bit_length.induct)
  case (1 n)
  show ?case
  proof (cases "n div 2 = 0")
    case True
    with 1(2) have "n = 1" by presburger
    then show ?thesis by (simp add: bit_length.simps)
  next
    case False
    with 1(2) have m: "0 < n div 2" by presburger
    let ?b = "bit_length (n div 2)"
    from 1(1) 1(2) m have ih: "0 < ?b" "2 ^ nat (?b - 1) \<le> n div 2" "n div 2 < 2 ^ nat ?b"
      by auto
    have bl: "bit_length n = 1 + ?b"
      using 1(2) by (subst bit_length.simps) simp
    have p: "(2::int) ^ nat ?b = 2 * 2 ^ nat (?b - 1)"
      using ih(1) by (metis Suc_nat_eq_nat_zadd1 add.commute diff_add_cancel diff_ge_0_iff_ge
          int_one_le_iff_zero_less power_Suc)
    have lo: "2 * 2 ^ nat (?b - 1) \<le> n" using ih(2) by presburger
    have hi: "n < 2 * 2 ^ nat ?b" using ih(3) by presburger
    have q: "nat (1 + ?b) = Suc (nat ?b)" using ih(1) by simp
    show ?thesis
      using ih(1) lo hi by (simp add: bl p q)
  qed
qed

lemma floor_log2_of_int: "0 < n \<Longrightarrow> floor_log2 (of_int n) = bit_length n - 1"
  by (simp add: floor_log2_def)

lemma round_half_even_of_int: "round_half_even (of_int k) = k"
  by (simp add: round_half_even_def)


lemma round_to_double_minus: "round_to_double (- q) = num_negate (round_to_double q)"
  by (simp add: round_to_double_def Let_def)

lemma round_to_double_scaled:
  assumes "0 < n" and "p \<le> 0" and "floor_log2 (of_int n) - 52 = p" and "- 1074 \<le> p"
    and "n < 2 ^ 1024"
  shows "round_to_double (of_int n) = Finite (of_int n)"
proof -
  let ?k = "nat (- p)"
  have pw: "pow2 p = 1 / 2 ^ ?k"
    using assms(2) by (cases "p = 0") (simp_all add: pow2_def)
  have q: "(of_int n :: rat) / pow2 p = of_int (n * 2 ^ ?k)"
    by (simp add: pw)
  have m: "round_half_even (of_int n / pow2 p) = n * 2 ^ ?k"
    unfolding q by (rule round_half_even_of_int)
  have r: "of_int (n * 2 ^ ?k) * pow2 p = (of_int n :: rat)"
    by (simp add: pw)
  have mx: "max (floor_log2 (of_int n) - 52) (- 1074) = p"
    using assms(3,4) by simp
  have lt: "\<not> (2 ^ 1024 \<le> (of_int n :: rat))"
  proof -
    have "(of_int n :: rat) < of_int (2 ^ 1024)" using assms(5) by (simp only: of_int_less_iff)
    then show ?thesis by simp
  qed
  have a: "\<bar>of_int n :: rat\<bar> = of_int n" using assms(1) by simp
  have nz: "(of_int n :: rat) \<noteq> 0" "\<not> (of_int n :: rat) < 0" using assms(1) by simp_all
  show ?thesis
    unfolding round_to_double_def Let_def a mx m r using nz lt by simp
qed

lemma round_to_double_int:
  assumes "0 < n" and "n \<le> 2 ^ 53"
  shows "round_to_double (of_int n) = Finite (of_int n)"
proof -
  let ?b = "bit_length n"
  from bit_length_bounds [OF assms(1)]
  have b: "0 < ?b" "2 ^ nat (?b - 1) \<le> n" "n < 2 ^ nat ?b" by auto
  have fl: "floor_log2 (of_int n) = ?b - 1" using assms(1) by (rule floor_log2_of_int)
  have le: "?b - 1 \<le> 53"
  proof (rule ccontr)
    assume "\<not> ?b - 1 \<le> 53"
    then have "54 \<le> nat (?b - 1)" by simp
    then have "(2::int) ^ 54 \<le> 2 ^ nat (?b - 1)" by (intro power_increasing) simp_all
    with b(2) assms(2) show False by simp
  qed
  show ?thesis
  proof (cases "?b - 1 = 53")
    case True
    then have "nat (?b - 1) = 53" by simp
    with b(2) assms(2) have n: "n = 2 ^ 53" by simp
    have "floor_log2 (9007199254740992::rat) = 53"
      using fl True unfolding n by simp
    then show ?thesis
      unfolding n by (simp add: round_to_double_def Let_def pow2_def round_half_even_def)
  next
    case False
    with le have p: "?b - 1 - 52 \<le> 0" by simp
    have big: "n < 2 ^ 1024"
    proof -
      have "(2::int) ^ 53 < 2 ^ 1024" by simp
      with assms(2) show ?thesis by linarith
    qed
    show ?thesis
      using b(1) by (intro round_to_double_scaled [OF assms(1) p _ _ big]) (simp_all add: fl)
  qed
qed

lemma round_to_double_numeral:
  "numeral k \<le> (9007199254740992::int) \<Longrightarrow> round_to_double (numeral k) = Finite (numeral k)"
  using round_to_double_int [of "numeral k"] by simp

lemma round_to_double_small: "round_to_double 0 = Finite 0" "round_to_double 1 = Finite 1"
  using round_to_double_int [of 1] by (simp_all add: round_to_double_def)

lemmas double_eval =
  pow2_def power10_def floor_log2_def round_half_even_def round_to_double_def Let_value
  floor_rat_numeral bit_length_numeral

lemmas digits_eval =
  power10_def Let_value floor_rat_numeral digits_candidate_def shortest_decimal_def
  decimal_exponent_def shortest_digits_numeral decimal_exponent_up_numeral
  decimal_exponent_down_numeral positive_to_string_def digits_of_nat_numeral
  digits_of_nat_small digit_char_def exponent_part_def

text \<open>Printing a number: the first set rounds by computation, the second by
  \<open>round_to_double_numeral\<close>, which is enough for an integer up to \<open>2^53\<close>.\<close>

lemmas number_string_eval = digits_eval double_eval

lemmas int_string_eval = digits_eval round_to_double_numeral round_to_double_small

lemma out_of_range_iff:
  "(\<not> num_strict_eq num num \<or> num_greater num GRAPHQL_MAX_INT \<or> num_less num GRAPHQL_MIN_INT)
   = (\<not> in_int32_range num)"
  by (cases num)
     (auto simp: num_strict_eq_def num_greater_def GRAPHQL_MAX_INT_def GRAPHQL_MIN_INT_def
                 in_int32_range_def)

lemma floor_differs_iff: "(\<not> num_strict_eq (Math_floor num) num) = (num = NaN \<or> fractional num)"
proof (cases num)
  case (Finite q)
  have "(of_int \<lfloor>q\<rfloor> = q) = (q \<in> \<int>)"
    by (metis Ints_of_int Ints_cases floor_of_int)
  with Finite show ?thesis by (simp add: num_strict_eq_def fractional_def)
qed (simp_all add: num_strict_eq_def fractional_def)

lemma floor_integral: "\<not> fractional num \<Longrightarrow> Math_floor num = num"
  by (cases num) (auto simp: fractional_def elim: Ints_cases)

lemma OrdinaryToPrimitive_swap:
  "OrdinaryToPrimitive [a, b] this = Inr p \<Longrightarrow> \<exists>p'. OrdinaryToPrimitive [b, a] this = Inr p'"
  by (cases a; cases b) (auto split: if_splits)

lemma Number_conv_String_conv:
  assumes "Number_conv v = Inr num"
  shows "\<exists>s. String_conv v = Inr s"
proof (cases v)
  case (JSArray xs)
  with assms show ?thesis by (auto split: sum.splits)
next
  case (JSObject vo tj ts)
  with assms obtain p where "OrdinaryToPrimitive [vo, ts] (JSObject vo tj ts) = Inr p"
    by (auto split: sum.splits)
  from OrdinaryToPrimitive_swap [OF this] JSObject show ?thesis by auto
qed simp_all

lemma GraphQLInt_parseValue_eq: "GraphQLInt_parseValue v = GraphQLInt_serialize v"
  by (simp add: GraphQLInt_parseValue_def GraphQLInt_serialize_def)

lemma GraphQLInt_serialize_cases:
  "GraphQLInt_serialize v =
     (if v = JSString [] then
        Inl (TypeError ''Int cannot represent non 32-bit signed integer value: (empty string)'')
      else case Number_conv v of
        Inl e \<Rightarrow> Inl e
      | Inr num \<Rightarrow>
          if \<not> in_int32_range num then
            (case String_conv v of Inl e \<Rightarrow> Inl e
             | Inr s \<Rightarrow> Inl (TypeError (''Int cannot represent non 32-bit signed integer value: '' @ s)))
          else if fractional num then
            (case String_conv v of Inl e \<Rightarrow> Inl e
             | Inr s \<Rightarrow> Inl (TypeError (''Int cannot represent non-integer value: '' @ s)))
          else Inr (JSNumber num))"
proof (cases "Number_conv v")
  case (Inl e)
  then show ?thesis by (simp add: GraphQLInt_serialize_def)
next
  case (Inr num)
  show ?thesis
  proof (cases "in_int32_range num")
    case False
    with Inr out_of_range_iff [of num] show ?thesis
      by (simp add: GraphQLInt_serialize_def)
  next
    case True
    then have "num \<noteq> NaN" by (auto simp: in_int32_range_def)
    with True Inr out_of_range_iff [of num] floor_differs_iff [of num] floor_integral [of num]
    show ?thesis
      by (simp add: GraphQLInt_serialize_def Let_def)
  qed
qed

section \<open>Int: values in range\<close>

text \<open>
  C1. For every integer \<open>n\<close> with \<open>-2147483648 \<le> n \<le> 2147483647\<close>, \<^verbatim>\<open>Int.serialize(n)\<close>
  returns \<open>n\<close> and \<^verbatim>\<open>Int.parseValue(n)\<close> returns \<open>n\<close>: integers in range pass through
  unchanged on the output and on the input path.
\<close>

theorem int_in_range_unchanged:
  fixes n :: int
  assumes "- 2147483648 \<le> n" and "n \<le> 2147483647"
  shows "GraphQLInt_serialize (JSNumber (Finite (of_int n))) = Inr (JSNumber (Finite (of_int n)))
       \<and> GraphQLInt_parseValue (JSNumber (Finite (of_int n))) = Inr (JSNumber (Finite (of_int n)))"
proof -
  let ?num = "Finite (of_int n)"
  have hi: "\<not> num_greater ?num GRAPHQL_MAX_INT"
    using assms(2) by (simp add: num_greater_def GRAPHQL_MAX_INT_def)
  have lo: "\<not> num_less ?num GRAPHQL_MIN_INT"
    using assms(1) by (simp add: GRAPHQL_MIN_INT_def)
  show ?thesis
    by (simp add: GraphQLInt_serialize_def GraphQLInt_parseValue_def hi lo num_strict_eq_def)
qed

theorem int_in_range_unchanged_witness:
  "- 2147483648 \<le> (2147483647::int) \<and> (2147483647::int) \<le> 2147483647
   \<and> GraphQLInt_serialize (JSNumber (Finite 2147483647)) = Inr (JSNumber (Finite 2147483647))
   \<and> GraphQLInt_parseValue (JSNumber (Finite 2147483647)) = Inr (JSNumber (Finite 2147483647))"
  using int_in_range_unchanged [of 2147483647] by simp

section \<open>Facts about \<^verbatim>\<open>parseInt\<close> and decimal texts\<close>












section \<open>Int: literals\<close>



section \<open>The list of the specified scalar types\<close>

lemma specified_names:
  "map name specifiedScalarTypes = [''String'', ''Int'', ''Float'', ''Boolean'', ''ID'']"
  by (simp add: specifiedScalarTypes_def GraphQLString_def GraphQLInt_def GraphQLFloat_def
                GraphQLBoolean_def GraphQLID_def)

lemma isSpecifiedScalarType_names:
  "isSpecifiedScalarType t = (name t \<in> set (map name specifiedScalarTypes))"
  by (auto simp: isSpecifiedScalarType_def list_ex_iff)

text \<open>
  C7. \<^verbatim>\<open>specifiedScalarTypes\<close> is the list String, Int, Float, Boolean, ID, in this order,
  each name once; and \<^verbatim>\<open>isSpecifiedScalarType(t)\<close> is true if and only if the name of
  some entry is the name of \<open>t\<close>, that is, if and only if the name of \<open>t\<close> is one of the
  five names. Only the name of \<open>t\<close> counts: \<open>t\<close> is any named type, and a different
  definition that has one of the five names is specified too.
\<close>

theorem specified_scalar_types:
  "specifiedScalarTypes = [GraphQLString, GraphQLInt, GraphQLFloat, GraphQLBoolean, GraphQLID]
   \<and> length specifiedScalarTypes = 5
   \<and> map name specifiedScalarTypes = [''String'', ''Int'', ''Float'', ''Boolean'', ''ID'']
   \<and> distinct (map name specifiedScalarTypes)
   \<and> isSpecifiedScalarType t = (\<exists>s \<in> set specifiedScalarTypes. name t = name s)
   \<and> isSpecifiedScalarType t = (name t \<in> {''String'', ''Int'', ''Float'', ''Boolean'', ''ID''})"
proof (intro conjI)
  show "specifiedScalarTypes = [GraphQLString, GraphQLInt, GraphQLFloat, GraphQLBoolean, GraphQLID]"
    by (rule specifiedScalarTypes_def)
  show "length specifiedScalarTypes = 5"
    by (simp add: specifiedScalarTypes_def)
  show "map name specifiedScalarTypes = [''String'', ''Int'', ''Float'', ''Boolean'', ''ID'']"
    by (rule specified_names)
  show "distinct (map name specifiedScalarTypes)"
    by (simp add: specified_names)
  show "isSpecifiedScalarType t = (\<exists>s \<in> set specifiedScalarTypes. name t = name s)"
    by (auto simp: isSpecifiedScalarType_def list_ex_iff)
  show "isSpecifiedScalarType t = (name t \<in> {''String'', ''Int'', ''Float'', ''Boolean'', ''ID''})"
    unfolding isSpecifiedScalarType_names specified_names by simp
qed

theorem specified_scalar_types_witness:
  "isSpecifiedScalarType GraphQLString \<and> isSpecifiedScalarType GraphQLInt
   \<and> isSpecifiedScalarType GraphQLFloat \<and> isSpecifiedScalarType GraphQLBoolean
   \<and> isSpecifiedScalarType GraphQLID
   \<and> isSpecifiedScalarType \<lparr> name = ''Int'' \<rparr>
   \<and> isSpecifiedScalarType (GraphQLID \<lparr> name := ''Float'', description := ''another'' \<rparr>)
   \<and> \<not> isSpecifiedScalarType \<lparr> name = ''DateTime'' \<rparr>
   \<and> \<not> isSpecifiedScalarType (GraphQLInt \<lparr> name := ''int'' \<rparr>)"
proof -
  note by_name = specified_scalar_types
    [THEN conjunct2, THEN conjunct2, THEN conjunct2, THEN conjunct2, THEN conjunct2]
  have nm: "name GraphQLString = ''String''" "name GraphQLInt = ''Int''"
    "name GraphQLFloat = ''Float''" "name GraphQLBoolean = ''Boolean''" "name GraphQLID = ''ID''"
    by (simp_all add: GraphQLString_def GraphQLInt_def GraphQLFloat_def GraphQLBoolean_def
                      GraphQLID_def)
  have a: "isSpecifiedScalarType GraphQLString"
    using by_name [of GraphQLString] by (simp add: nm)
  have b: "isSpecifiedScalarType GraphQLInt"
    using by_name [of GraphQLInt] by (simp add: nm)
  have c: "isSpecifiedScalarType GraphQLFloat"
    using by_name [of GraphQLFloat] by (simp add: nm)
  have d: "isSpecifiedScalarType GraphQLBoolean"
    using by_name [of GraphQLBoolean] by (simp add: nm)
  have e: "isSpecifiedScalarType GraphQLID"
    using by_name [of GraphQLID] by (simp add: nm)
  have f: "isSpecifiedScalarType \<lparr> name = ''Int'' \<rparr>"
    using by_name [of "\<lparr> name = ''Int'' \<rparr>"] by simp
  have g: "isSpecifiedScalarType (GraphQLID \<lparr> name := ''Float'', description := ''another'' \<rparr>)"
    using by_name [of "GraphQLID \<lparr> name := ''Float'', description := ''another'' \<rparr>"]
    by simp
  have h: "\<not> isSpecifiedScalarType \<lparr> name = ''DateTime'' \<rparr>"
    using by_name [of "\<lparr> name = ''DateTime'' \<rparr>"] by simp
  have i: "\<not> isSpecifiedScalarType (GraphQLInt \<lparr> name := ''int'' \<rparr>)"
    using by_name [of "GraphQLInt \<lparr> name := ''int'' \<rparr>"] by simp
  from a b c d e f g h i show ?thesis by (intro conjI)
qed

section \<open>Serializing twice\<close>

lemma GraphQLInt_serialize_idem:
  assumes "GraphQLInt_serialize v = Inr r"
  shows "GraphQLInt_serialize r = Inr r"
proof -
  from assms obtain num where r: "r = JSNumber num" and "in_int32_range num" "\<not> fractional num"
    by (auto simp: GraphQLInt_serialize_cases split: if_splits sum.splits)
  then show ?thesis by (simp add: GraphQLInt_serialize_cases)
qed

lemma GraphQLFloat_serialize_idem:
  assumes "GraphQLFloat_serialize v = Inr r"
  shows "GraphQLFloat_serialize r = Inr r"
proof -
  from assms obtain num where r: "r = JSNumber num" and "num \<noteq> NaN"
    by (auto simp: GraphQLFloat_serialize_def num_strict_eq_def split: if_splits sum.splits)
  then show ?thesis by (simp add: GraphQLFloat_serialize_def num_strict_eq_def)
qed

lemma GraphQLString_serialize_idem:
  assumes "GraphQLString_serialize v = Inr r"
  shows "GraphQLString_serialize r = Inr r"
proof -
  from assms obtain s where r: "r = JSString s"
    by (auto simp: GraphQLString_serialize_def split: if_splits sum.splits)
  then show ?thesis by (simp add: GraphQLString_serialize_def)
qed

lemma GraphQLBoolean_serialize_idem:
  assumes "GraphQLBoolean_serialize v = Inr r"
  shows "GraphQLBoolean_serialize r = Inr r"
  using assms by (auto simp: GraphQLBoolean_serialize_def)

lemma GraphQLID_serialize_idem:
  assumes "GraphQLID_serialize v = Inr r"
  shows "GraphQLID_serialize r = Inr r"
proof -
  from assms obtain s where r: "r = JSString s"
    by (auto simp: GraphQLID_serialize_def split: sum.splits)
  then show ?thesis by (simp add: GraphQLID_serialize_def)
qed

text \<open>
  C8. For each of the five scalar types and every value \<open>v\<close> on which \<^verbatim>\<open>serialize\<close>
  succeeds with the result \<open>r\<close> (a value of the internal type of the scalar),
  \<^verbatim>\<open>serialize\<close> succeeds on \<open>r\<close> and returns \<open>r\<close>:
  \<^verbatim>\<open>serialize(serialize(v)) == serialize(v)\<close>.
\<close>

theorem serialize_idempotent:
  assumes "S \<in> set specifiedScalarTypes" and "serialize S v = Inr r"
  shows "serialize S r = Inr r"
proof -
  from assms(1) consider "S = GraphQLString" | "S = GraphQLInt" | "S = GraphQLFloat"
    | "S = GraphQLBoolean" | "S = GraphQLID"
    by (auto simp: specifiedScalarTypes_def)
  then show ?thesis
  proof cases
    case 1
    with assms(2) show ?thesis by (simp add: GraphQLString_def GraphQLString_serialize_idem)
  next
    case 2
    with assms(2) show ?thesis by (simp add: GraphQLInt_def GraphQLInt_serialize_idem)
  next
    case 3
    with assms(2) show ?thesis by (simp add: GraphQLFloat_def GraphQLFloat_serialize_idem)
  next
    case 4
    with assms(2) show ?thesis by (simp add: GraphQLBoolean_def GraphQLBoolean_serialize_idem)
  next
    case 5
    with assms(2) show ?thesis by (simp add: GraphQLID_def GraphQLID_serialize_idem)
  qed
qed

theorem serialize_idempotent_witness:
  "GraphQLInt \<in> set specifiedScalarTypes
   \<and> serialize GraphQLInt (JSString ''7'') = Inr (JSNumber (Finite 7))
   \<and> serialize GraphQLInt (JSNumber (Finite 7)) = Inr (JSNumber (Finite 7))
   \<and> GraphQLBoolean \<in> set specifiedScalarTypes
   \<and> serialize GraphQLBoolean (JSString ''a'') = Inr (JSBoolean True)
   \<and> serialize GraphQLBoolean (JSBoolean True) = Inr (JSBoolean True)"
proof -
  have m: "GraphQLInt \<in> set specifiedScalarTypes" "GraphQLBoolean \<in> set specifiedScalarTypes"
    by (simp_all add: specifiedScalarTypes_def)
  have "trim ''7'' = ''7''" "parse_non_decimal ''7'' = None"
    "parse_decimal ''7'' = Some (Finite 7, [])"
    by code_simp+
  moreover have "round_to_double 7 = Finite 7" by (simp add: double_eval)
  ultimately have n: "StringToNumber ''7'' = Finite 7"
    by (simp add: StringToNumber_def)
  have s: "serialize GraphQLInt (JSString ''7'') = Inr (JSNumber (Finite 7))"
    by (simp add: GraphQLInt_def GraphQLInt_serialize_cases n in_int32_range_def fractional_def)
  have b: "serialize GraphQLBoolean (JSString ''a'') = Inr (JSBoolean True)"
    by (simp add: GraphQLBoolean_def GraphQLBoolean_serialize_def)
  from m s b serialize_idempotent [OF m(1) s] serialize_idempotent [OF m(2) b]
  show ?thesis by (intro conjI)
qed

section \<open>Serializing objects\<close>

text \<open>
  C9. \<^verbatim>\<open>serializeObject(v)\<close> probes three capabilities in order. If \<open>v\<close> is object-like
  and its \<^verbatim>\<open>valueOf\<close> is a function whose result is not object-like, the result of
  \<^verbatim>\<open>valueOf\<close> is returned. Otherwise, if \<open>v\<close> is object-like and its \<^verbatim>\<open>toJSON\<close> is a function,
  the result of \<^verbatim>\<open>toJSON\<close> is returned. Otherwise, and so for every \<open>v\<close> that is not
  object-like, \<open>v\<close> is returned unchanged.
\<close>

theorem serializeObject_outcomes:
  "(\<forall>m. isObjectLike v \<and> get_valueOf v = Some m \<and> \<not> isObjectLike (call_method m v) \<longrightarrow>
      serializeObject v = call_method m v)
   \<and> (\<forall>j. isObjectLike v
          \<and> \<not> (\<exists>m. get_valueOf v = Some m \<and> \<not> isObjectLike (call_method m v))
          \<and> get_toJSON v = Some j \<longrightarrow>
      serializeObject v = call_method j v)
   \<and> (isObjectLike v
          \<and> \<not> (\<exists>m. get_valueOf v = Some m \<and> \<not> isObjectLike (call_method m v))
          \<and> get_toJSON v = None \<longrightarrow>
      serializeObject v = v)
   \<and> (\<not> isObjectLike v \<longrightarrow> serializeObject v = v)"
proof (intro conjI allI impI)
  fix m
  assume "isObjectLike v \<and> get_valueOf v = Some m \<and> \<not> isObjectLike (call_method m v)"
  then show "serializeObject v = call_method m v"
    by (simp add: serializeObject_def)
next
  fix j
  assume a: "isObjectLike v
          \<and> \<not> (\<exists>m. get_valueOf v = Some m \<and> \<not> isObjectLike (call_method m v))
          \<and> get_toJSON v = Some j"
  then show "serializeObject v = call_method j v"
    by (cases "get_valueOf v") (simp_all add: serializeObject_def)
next
  assume a: "isObjectLike v
          \<and> \<not> (\<exists>m. get_valueOf v = Some m \<and> \<not> isObjectLike (call_method m v))
          \<and> get_toJSON v = None"
  then show "serializeObject v = v"
    by (cases "get_valueOf v") (simp_all add: serializeObject_def)
next
  assume "\<not> isObjectLike v"
  then show "serializeObject v = v"
    by (simp add: serializeObject_def)
qed

theorem serializeObject_outcomes_witness:
  "serializeObject (JSObject (Some (Returns (JSNumber (Finite 5)))) (Some (Returns (JSString ''j''))) None)
     = JSNumber (Finite 5)
   \<and> serializeObject (JSObject (Some ReturnsThis) (Some (Returns (JSString ''id''))) None)
     = JSString ''id''
   \<and> serializeObject (JSObject None (Some (Returns (JSString ''id''))) None) = JSString ''id''
   \<and> serializeObject (JSObject (Some ReturnsThis) None None) = JSObject (Some ReturnsThis) None None
   \<and> serializeObject (JSArray [JSNull]) = JSArray [JSNull]
   \<and> serializeObject JSNull = JSNull
   \<and> serializeObject (JSString ''s'') = JSString ''s''"
proof -
  note outcomes = serializeObject_outcomes
  have a: "serializeObject
      (JSObject (Some (Returns (JSNumber (Finite 5)))) (Some (Returns (JSString ''j''))) None)
     = JSNumber (Finite 5)"
    using outcomes
      [of "JSObject (Some (Returns (JSNumber (Finite 5)))) (Some (Returns (JSString ''j''))) None"]
    by (simp add: isObjectLike_def)
  have b: "serializeObject (JSObject (Some ReturnsThis) (Some (Returns (JSString ''id''))) None)
     = JSString ''id''"
    using outcomes [of "JSObject (Some ReturnsThis) (Some (Returns (JSString ''id''))) None"]
    by (simp add: isObjectLike_def)
  have c: "serializeObject (JSObject None (Some (Returns (JSString ''id''))) None) = JSString ''id''"
    using outcomes [of "JSObject None (Some (Returns (JSString ''id''))) None"]
    by (simp add: isObjectLike_def)
  have d: "serializeObject (JSObject (Some ReturnsThis) None None)
     = JSObject (Some ReturnsThis) None None"
    using outcomes [of "JSObject (Some ReturnsThis) None None"]
    by (simp add: isObjectLike_def)
  have e: "serializeObject (JSArray [JSNull]) = JSArray [JSNull]"
    using outcomes [of "JSArray [JSNull]"] by (simp add: isObjectLike_def)
  have f: "serializeObject JSNull = JSNull"
    using outcomes [of JSNull] by (simp add: isObjectLike_def)
  have g: "serializeObject (JSString ''s'') = JSString ''s''"
    using outcomes [of "JSString ''s''"] by (simp add: isObjectLike_def)
  from a b c d e f g show ?thesis by (intro conjI)
qed

section \<open>Literal parsing never raises\<close>

lemma parseLiteral_cases:
  "parseLiteral GraphQLString = GraphQLString_parseLiteral"
  "parseLiteral GraphQLInt = GraphQLInt_parseLiteral"
  "parseLiteral GraphQLFloat = GraphQLFloat_parseLiteral"
  "parseLiteral GraphQLBoolean = GraphQLBoolean_parseLiteral"
  "parseLiteral GraphQLID = GraphQLID_parseLiteral"
  by (simp_all add: GraphQLString_def GraphQLInt_def GraphQLFloat_def GraphQLBoolean_def
                    GraphQLID_def)

text \<open>
  C10. For each of the five scalar types and every literal node, of any kind and with
  any text, \<^verbatim>\<open>parseLiteral\<close> returns: its outcome is a value (a coerced value, or
  \<^verbatim>\<open>undefined\<close> for not applicable), never an error.
\<close>

theorem parseLiteral_never_fails:
  assumes "S \<in> set specifiedScalarTypes"
  shows "\<exists>r. parseLiteral S ast = Inr r"
proof -
  from assms consider "S = GraphQLString" | "S = GraphQLInt" | "S = GraphQLFloat"
    | "S = GraphQLBoolean" | "S = GraphQLID"
    by (auto simp: specifiedScalarTypes_def)
  then show ?thesis
  proof cases
    case 1
    then show ?thesis
      by (cases ast) (simp_all add: parseLiteral_cases GraphQLString_parseLiteral_def)
  next
    case 2
    then show ?thesis
      by (cases ast) (simp_all add: parseLiteral_cases GraphQLInt_parseLiteral_def Let_def)
  next
    case 3
    then show ?thesis
      by (cases ast) (simp_all add: parseLiteral_cases GraphQLFloat_parseLiteral_def)
  next
    case 4
    then show ?thesis
      by (cases ast) (simp_all add: parseLiteral_cases GraphQLBoolean_parseLiteral_def)
  next
    case 5
    then show ?thesis
      by (cases ast) (simp_all add: parseLiteral_cases GraphQLID_parseLiteral_def)
  qed
qed

theorem parseLiteral_never_fails_witness:
  "GraphQLInt \<in> set specifiedScalarTypes
   \<and> (\<exists>r. parseLiteral GraphQLInt (IntValueNode ''99999999999'') = Inr r)
   \<and> GraphQLBoolean \<in> set specifiedScalarTypes
   \<and> (\<exists>r. parseLiteral GraphQLBoolean (StringValueNode ''true'') = Inr r)"
proof -
  have m: "GraphQLInt \<in> set specifiedScalarTypes" "GraphQLBoolean \<in> set specifiedScalarTypes"
    by (simp_all add: specifiedScalarTypes_def)
  from m parseLiteral_never_fails [OF m(1), of "IntValueNode ''99999999999''"]
    parseLiteral_never_fails [OF m(2), of "StringValueNode ''true''"]
  show ?thesis by (intro conjI)
qed

end
